theory Spec2Isabelle
  imports Main "HOL-Library.Word"
begin

unbundle bit_operations_syntax

section \<open>Execution identifiers: \<open>str(uuid.uuid4())\<close>\<close>

text \<open>
  \<open>execute_workflow\<close> draws its execution id as \<open>str(uuid.uuid4())\<close>. The standard
  library builds the UUID from 16 random bytes, forces the variant and the version bits,
  and prints the 128-bit integer as 32 lowercase hexadecimal digits grouped 8-4-4-4-12.
  The random bytes are an input of the model.
\<close>

definition hex_digit :: "nat \<Rightarrow> char" where
  "hex_digit n = ''0123456789abcdef'' ! (n mod 16)"

definition uuid4 :: "128 word \<Rightarrow> 128 word" where
  "uuid4 rnd =
     (let i1 = (rnd AND NOT (push_bit 48 0xc000)) OR push_bit 48 0x8000;
          i2 = (i1 AND NOT (push_bit 64 0xf000)) OR push_bit 76 4
      in i2)"

definition hex32 :: "128 word \<Rightarrow> string" where
  "hex32 w = map (\<lambda>i. hex_digit (unat (drop_bit (4 * (31 - i)) w) mod 16)) [0..<32]"

definition str_uuid :: "128 word \<Rightarrow> string" where
  "str_uuid w =
     (let h = hex32 w
      in take 8 h @ ''-'' @ take 4 (drop 8 h) @ ''-'' @ take 4 (drop 12 h) @ ''-''
         @ take 4 (drop 16 h) @ ''-'' @ drop 20 h)"

section \<open>The status endpoint: \<open>urlencode\<close> and \<open>construct_status_endpoint\<close>\<close>

text \<open>
  \<open>urllib.parse.urlencode\<close> of a dictionary of strings joins \<open>quote_plus(k)=quote_plus(v)\<close>
  with \<open>&\<close>. \<open>quote_plus\<close> keeps the unreserved characters, turns a space into \<open>+\<close> and
  writes every other character as the bytes of its UTF-8 encoding, each as \<open>%XX\<close> with
  uppercase hexadecimal digits. A string is the list of its code points, which are below
  256 here: a code point below 128 is one byte, any other is two.
\<close>

definition always_safe :: "char \<Rightarrow> bool" where
  "always_safe c \<longleftrightarrow>
     c \<in> set ''ABCDEFGHIJKLMNOPQRSTUVWXYZabcdefghijklmnopqrstuvwxyz0123456789_.-~''"

definition hex_digit_upper :: "nat \<Rightarrow> char" where
  "hex_digit_upper n = ''0123456789ABCDEF'' ! (n mod 16)"

definition utf8_bytes :: "char \<Rightarrow> nat list" where
  "utf8_bytes c =
     (let n = of_char c
      in if n < 128 then [n] else [192 + n div 64, 128 + n mod 64])"

definition percent_byte :: "nat \<Rightarrow> string" where
  "percent_byte b = [CHR ''%'', hex_digit_upper (b div 16), hex_digit_upper (b mod 16)]"

definition quote_char :: "char \<Rightarrow> string" where
  "quote_char c =
     (if always_safe c then [c]
      else if c = CHR '' '' then ''+''
      else concat (map percent_byte (utf8_bytes c)))"

definition quote_plus :: "string \<Rightarrow> string" where
  "quote_plus s = concat (map quote_char s)"

fun join_amp :: "string list \<Rightarrow> string" where
  "join_amp [] = ''''"
| "join_amp [x] = x"
| "join_amp (x # y # ys) = x @ ''&'' @ join_amp (y # ys)"

definition urlencode :: "(string \<times> string) list \<Rightarrow> string" where
  "urlencode query = join_amp (map (\<lambda>(k, v). quote_plus k @ ''='' @ quote_plus v) query)"

definition construct_status_endpoint :: "string \<Rightarrow> string \<Rightarrow> string" where
  "construct_status_endpoint api_endpoint execution_id =
     (let query_parameters = urlencode [(''execution_id'', execution_id)];
          complete_endpoint = ''/'' @ api_endpoint @ ''?'' @ query_parameters
      in complete_endpoint)"

section \<open>Deployments and execution results\<close>

text \<open>
  The fields of an \<open>APIDeployment\<close> row that \<open>DeploymentHelper\<close> reads: \<open>api.id\<close>,
  \<open>api.api_name\<close>, \<open>api.workflow.id\<close>, \<open>api.is_active\<close> and \<open>api.api_endpoint\<close>.
\<close>

record APIDeployment =
  deployment_id :: string
  api_name :: string
  workflow :: string
  is_active :: bool
  api_endpoint :: string

text \<open>
  An \<open>ExecutionResponse\<close> carries the fields \<open>execute_workflow\<close> sets or passes on. Its
  \<open>result\<close>, when there is one, is the list of per-file result dictionaries, each an
  association list from a field name to its rendered value.
\<close>

type_synonym result_item = "(string \<times> string) list"

record ExecutionResponse =
  workflow_id :: string
  execution_id :: string
  execution_status :: string
  status_api :: "string option"
  error :: "string option"
  result :: "result_item list option"

text \<open>
  Modelled from the spec: \<open>ExecutionResponse.remove_result_metadata_keys\<close>, whose class
  (\<open>workflow_manager.workflow.dto\<close>) is not among the sources. The spec says that it
  strips the result metadata fields: every \<open>metadata\<close> entry of every result item goes.
\<close>

definition remove_result_metadata_keys :: "ExecutionResponse \<Rightarrow> ExecutionResponse" where
  "remove_result_metadata_keys r =
     r\<lparr>result := map_option (map (filter (\<lambda>kv. fst kv \<noteq> ''metadata''))) (result r)\<rparr>"

definition has_metadata :: "ExecutionResponse \<Rightarrow> bool" where
  "has_metadata r \<longleftrightarrow>
     (case result r of
        None \<Rightarrow> False
      | Some items \<Rightarrow> list_ex (\<lambda>item. list_ex (\<lambda>kv. fst kv = ''metadata'') item) items)"

section \<open>The dispatcher: \<open>DeploymentHelper.execute_workflow\<close>\<close>

text \<open>
  The collaborators of the dispatcher live outside the sources: the staging store
  (\<open>SourceConnector\<close>, \<open>DestinationConnector\<close>), the workflow engine (\<open>WorkflowHelper\<close>)
  and the notification sink. Each is a parameter giving the outcome of the call at its
  arguments: \<open>Inl (Raised msg)\<close> when it raises an \<open>Exception\<close> whose \<open>str\<close> is \<open>msg\<close>,
  \<open>Inr v\<close> when it returns \<open>v\<close>. The calls made are recorded in order. The random bytes
  behind the execution id and the value of \<open>ExecutionStatus.ERROR\<close> are parameters too.
\<close>

datatype raised = Raised string

fun str_raised :: "raised \<Rightarrow> string" where
  "str_raised (Raised msg) = msg"

type_synonym uploaded_file = string
type_synonym file_hashes = "(string \<times> string) list"

record collaborators =
  urandom16 :: "128 word"
  ERROR_value :: string
  add_input_file_to_api_storage :: "string \<Rightarrow> string \<Rightarrow> uploaded_file list \<Rightarrow> raised + file_hashes"
  execute_workflow_async ::
    "string \<Rightarrow> string \<Rightarrow> file_hashes \<Rightarrow> int \<Rightarrow> string \<Rightarrow> raised + ExecutionResponse"
  send_notification :: "APIDeployment \<Rightarrow> ExecutionResponse \<Rightarrow> raised + unit"
  delete_api_storage_dir :: "string \<Rightarrow> string \<Rightarrow> raised + unit"

datatype call =
    AddInputFileToApiStorage string string "uploaded_file list"
  | ExecuteWorkflowAsync string string file_hashes int string
  | SendNotification APIDeployment ExecutionResponse
  | DeleteApiStorageDir string string

text \<open>
  What the \<open>try\<close> block does to the engine's result before it notifies: the status
  endpoint is attached, and the metadata goes unless \<open>include_metadata\<close> is set.
\<close>

definition post_process :: "APIDeployment \<Rightarrow> string \<Rightarrow> bool \<Rightarrow> ExecutionResponse \<Rightarrow> ExecutionResponse" where
  "post_process api eid include_metadata r0 =
     (let r1 = r0\<lparr>status_api := Some (construct_status_endpoint (api_endpoint api) eid)\<rparr>
      in if \<not> include_metadata then remove_result_metadata_keys r1 else r1)"

text \<open>The body of the \<open>try\<close> block: engine call, post-processing, notification.\<close>

definition try_block ::
  "collaborators \<Rightarrow> APIDeployment \<Rightarrow> file_hashes \<Rightarrow> int \<Rightarrow> bool \<Rightarrow> string
     \<Rightarrow> (raised + ExecutionResponse) \<times> call list" where
  "try_block env api hash_values_of_files timeout include_metadata eid =
     (let pipeline_id = deployment_id api;
          c1 = ExecuteWorkflowAsync (workflow api) pipeline_id hash_values_of_files timeout eid
      in case execute_workflow_async env (workflow api) pipeline_id hash_values_of_files timeout eid of
           Inl e \<Rightarrow> (Inl e, [c1])
         | Inr r0 \<Rightarrow>
             (let r = post_process api eid include_metadata r0;
                  c2 = SendNotification api r
              in case send_notification env api r of
                   Inl e \<Rightarrow> (Inl e, [c1, c2])
                 | Inr _ \<Rightarrow> (Inr r, [c1, c2])))"

text \<open>The execution id of a dispatch: \<open>str(uuid.uuid4())\<close> on the random bytes drawn.\<close>

definition new_execution_id :: "collaborators \<Rightarrow> string" where
  "new_execution_id env = str_uuid (uuid4 (urandom16 env))"

text \<open>The notifications among the calls made, in order.\<close>

fun notifications :: "call list \<Rightarrow> (APIDeployment \<times> ExecutionResponse) list" where
  "notifications [] = []"
| "notifications (SendNotification api r # cs) = (api, r) # notifications cs"
| "notifications (c # cs) = notifications cs"

text \<open>
  \<open>execute_workflow\<close>: staging happens before the \<open>try\<close>, so an exception it raises
  leaves the function; the handler of the \<open>try\<close> deletes the staging directory and builds
  the error result, and an exception raised inside the handler leaves the function too.
  The value returned is the \<open>ExecutionResponse\<close> handed to the response serializer.
\<close>

definition execute_workflow ::
  "collaborators \<Rightarrow> string \<Rightarrow> APIDeployment \<Rightarrow> uploaded_file list \<Rightarrow> int \<Rightarrow> bool
     \<Rightarrow> (raised + ExecutionResponse) \<times> call list" where
  "execute_workflow env organization_name api file_objs timeout include_metadata =
     (let eid = new_execution_id env;
          c0 = AddInputFileToApiStorage (workflow api) eid file_objs
      in case add_input_file_to_api_storage env (workflow api) eid file_objs of
           Inl e \<Rightarrow> (Inl e, [c0])
         | Inr hash_values_of_files \<Rightarrow>
             (case try_block env api hash_values_of_files timeout include_metadata eid of
                (Inr r, calls) \<Rightarrow> (Inr r, c0 # calls)
              | (Inl err, calls) \<Rightarrow>
                  (let c3 = DeleteApiStorageDir (workflow api) eid
                   in case delete_api_storage_dir env (workflow api) eid of
                        Inl e \<Rightarrow> (Inl e, c0 # calls @ [c3])
                      | Inr _ \<Rightarrow>
                          (Inr \<lparr>workflow_id = workflow api, execution_id = eid,
                                execution_status = ERROR_value env, status_api = None,
                                error = Some (str_raised err), result = None\<rparr>,
                           c0 # calls @ [c3]))))"

section \<open>The validator: \<open>get_deployment_by_api_name\<close> and \<open>validate_api\<close>\<close>

text \<open>
  The exceptions of the validation path. \<open>DoesNotExist\<close> and \<open>MultipleObjectsReturned\<close>
  are the two ways \<open>APIDeployment.objects.get\<close> fails; \<open>Unauthorized\<close> stands for the
  rejection raised by \<open>KeyHelper.validate_api_key\<close>, which is not among the sources.
\<close>

datatype api_exception =
    APINotFound
  | InactiveAPI
  | InvalidAPIRequest string
  | DoesNotExist
  | MultipleObjectsReturned
  | Unauthorized

text \<open>
  \<open>APIDeployment.objects.get(api_name=api_name)\<close> over the table of deployments: the one
  matching row, \<open>DoesNotExist\<close> when there is none, \<open>MultipleObjectsReturned\<close> otherwise.
  The name looked up may be \<open>None\<close>, which no row matches.
\<close>

definition objects_get :: "APIDeployment list \<Rightarrow> string option \<Rightarrow> api_exception + APIDeployment" where
  "objects_get table name =
     (case filter (\<lambda>d. Some (api_name d) = name) table of
        [] \<Rightarrow> Inl DoesNotExist
      | [d] \<Rightarrow> Inr d
      | _ \<Rightarrow> Inl MultipleObjectsReturned)"

definition get_deployment_by_api_name ::
  "APIDeployment list \<Rightarrow> string option \<Rightarrow> api_exception + APIDeployment option" where
  "get_deployment_by_api_name table name =
     (case objects_get table name of
        Inr api \<Rightarrow> Inr (Some api)
      | Inl DoesNotExist \<Rightarrow> Inr None
      | Inl e \<Rightarrow> Inl e)"

text \<open>
  The calls the validation path makes to the outside: the key check of \<open>KeyHelper\<close> and
  the wrapped request handler.
\<close>

datatype vcall =
    ValidateApiKey string APIDeployment
  | Handler "APIDeployment option"

definition validate_api ::
  "(string \<Rightarrow> APIDeployment \<Rightarrow> api_exception + unit) \<Rightarrow> APIDeployment option \<Rightarrow> string
     \<Rightarrow> (api_exception + unit) \<times> vcall list" where
  "validate_api validate_api_key api_deployment api_key =
     (case api_deployment of
        None \<Rightarrow> (Inl APINotFound, [])
      | Some d \<Rightarrow>
          if \<not> is_active d then (Inl InactiveAPI, [])
          else (validate_api_key api_key d, [ValidateApiKey api_key d]))"

text \<open>Python's \<open>a or b\<close> on optional strings: \<open>a\<close> when it is a non-empty string, else \<open>b\<close>.\<close>

definition py_or :: "string option \<Rightarrow> string option \<Rightarrow> string option" where
  "py_or a b = (case a of None \<Rightarrow> b | Some x \<Rightarrow> if x = [] then b else Some x)"

definition validate_parameters :: "string option \<Rightarrow> string option \<Rightarrow> api_exception + unit" where
  "validate_parameters kwargs_api_name data_api_name =
     (case py_or kwargs_api_name data_api_name of
        None \<Rightarrow> Inl (InvalidAPIRequest ''Missing params api_name'')
      | Some x \<Rightarrow> if x = [] then Inl (InvalidAPIRequest ''Missing params api_name'') else Inr ())"

definition validate_and_process ::
  "APIDeployment list \<Rightarrow> (string \<Rightarrow> APIDeployment \<Rightarrow> api_exception + unit)
     \<Rightarrow> (APIDeployment option \<Rightarrow> api_exception + 'a) \<Rightarrow> string \<Rightarrow> string option \<Rightarrow> string option
     \<Rightarrow> (api_exception + 'a) \<times> vcall list" where
  "validate_and_process table validate_api_key func api_key kwargs_api_name data_api_name =
     (let name = py_or kwargs_api_name data_api_name
      in case get_deployment_by_api_name table name of
           Inl e \<Rightarrow> (Inl e, [])
         | Inr api_deployment \<Rightarrow>
             (case validate_api validate_api_key api_deployment api_key of
                (Inl e, calls) \<Rightarrow> (Inl e, calls)
              | (Inr _, calls) \<Rightarrow> (func api_deployment, calls @ [Handler api_deployment])))"

section \<open>The login path of \<open>AuthenticationService\<close>\<close>

text \<open>
  Method names that start with an underscore in the source are written without it.
  A request is read through its \<open>method\<close>, the two \<open>META\<close> entries the rate limiter looks
  at, and its form data.
\<close>

record request =
  request_method :: string
  http_x_forwarded_for :: "string option"
  remote_addr :: "string option"
  post :: "(string \<times> string) list"

record user =
  username :: string
  is_superuser :: bool

datatype response =
    Render string "(string \<times> string) list"
  | Redirect string

datatype login_exception =
    ValueError string
  | TypeError
  | IndexError
  | NameError string

text \<open>
  \<open>LoginRequestSerializer\<close> is not among the sources: it either reports its errors, a
  dictionary from a field to the list of its messages, or yields the validated data, of
  which \<open>user_login\<close> reads \<open>username\<close> and \<open>password\<close> with \<open>get\<close>.
\<close>

datatype serializer_outcome =
    Invalid "(string \<times> string list) list"
  | Valid "string option" "string option"

text \<open>
  What the login path needs from outside: the template and message constants, the
  serializer, Django's \<open>authenticate\<close> over the user database \<open>'db\<close>, and the effect of
  \<open>_set_default_user\<close> on that database (it answers \<open>False\<close> when its body raised).
\<close>

record 'db auth_env =
  TEMPLATE :: string
  ERROR_PLACE_HOLDER :: string
  USER_LOGIN_ERROR :: string
  WEB_APP_ORIGIN_URL :: string
  serializer :: "(string \<times> string) list \<Rightarrow> serializer_outcome"
  authenticate :: "'db \<Rightarrow> request \<Rightarrow> string option \<Rightarrow> string option \<Rightarrow> user option"
  set_default_user :: "'db \<Rightarrow> bool \<times> 'db"

record 'db service =
  login_attempts :: "string option \<rightharpoonup> int"
  db :: 'db

datatype auth_call =
    GetToken
  | Authenticate "string option" "string option"
  | Login user
  | SetDefaultUser

subsection \<open>Password complexity\<close>

definition is_upper :: "char \<Rightarrow> bool" where
  "is_upper c \<longleftrightarrow> c \<in> set ''ABCDEFGHIJKLMNOPQRSTUVWXYZ''"

definition is_lower :: "char \<Rightarrow> bool" where
  "is_lower c \<longleftrightarrow> c \<in> set ''abcdefghijklmnopqrstuvwxyz''"

definition is_digit :: "char \<Rightarrow> bool" where
  "is_digit c \<longleftrightarrow> c \<in> set ''0123456789''"

text \<open>
  \<open>re.search\<close> of a one-character class: some character of the string is in the class.
  A password is the list of its characters, and \<open>len\<close> is the length of that list; the
  classes \<open>[A-Z]\<close>, \<open>[a-z]\<close> and \<open>[0-9]\<close> are the ASCII ones, as in the source.
\<close>

definition re_search :: "(char \<Rightarrow> bool) \<Rightarrow> string \<Rightarrow> bool" where
  "re_search cls s = list_ex cls s"

definition validate_password_complexity :: "string \<Rightarrow> login_exception + unit" where
  "validate_password_complexity password =
     (if length password < 12 then
        Inl (ValueError ''Password must be at least 12 characters long'')
      else if \<not> re_search is_upper password then
        Inl (ValueError ''Password must contain uppercase letters'')
      else if \<not> re_search is_lower password then
        Inl (ValueError ''Password must contain lowercase letters'')
      else if \<not> re_search is_digit password then
        Inl (ValueError ''Password must contain numbers'')
      else if \<not> re_search (\<lambda>c. \<not> (is_upper c \<or> is_lower c \<or> is_digit c)) password then
        Inl (ValueError ''Password must contain special characters'')
      else Inr ())"

text \<open>
  The condition as the claim words it: shorter than 12 characters, or lacking an
  uppercase letter, a lowercase letter, a digit or a special character.
\<close>

definition weak_password :: "string \<Rightarrow> bool" where
  "weak_password p \<longleftrightarrow>
     length p < 12 \<or> \<not> list_ex is_upper p \<or> \<not> list_ex is_lower p \<or> \<not> list_ex is_digit p
     \<or> \<not> list_ex (\<lambda>c. \<not> is_upper c \<and> \<not> is_lower c \<and> \<not> is_digit c) p"

subsection \<open>The rate limiter\<close>

definition get_client_ip :: "request \<Rightarrow> string option" where
  "get_client_ip req =
     (case http_x_forwarded_for req of
        None \<Rightarrow> remote_addr req
      | Some x \<Rightarrow> if x = [] then remote_addr req else Some (takeWhile (\<lambda>c. c \<noteq> CHR '','') x))"

definition attempts :: "'db service \<Rightarrow> string option \<Rightarrow> int" where
  "attempts s ip = (case login_attempts s ip of None \<Rightarrow> 0 | Some n \<Rightarrow> n)"

definition is_rate_limited :: "'db service \<Rightarrow> string option \<Rightarrow> bool" where
  "is_rate_limited s ip \<longleftrightarrow> attempts s ip \<ge> 5"

definition increment_login_attempt :: "'db service \<Rightarrow> string option \<Rightarrow> 'db service" where
  "increment_login_attempt s ip = s\<lparr>login_attempts := (login_attempts s)(ip \<mapsto> attempts s ip + 1)\<rparr>"

definition reset_login_attempts :: "'db service \<Rightarrow> string option \<Rightarrow> 'db service" where
  "reset_login_attempts s ip =
     (if login_attempts s ip \<noteq> None then s\<lparr>login_attempts := (login_attempts s)(ip := None)\<rparr>
      else s)"

subsection \<open>Pages\<close>

definition render_login_page :: "'db auth_env \<Rightarrow> response" where
  "render_login_page env = Render (TEMPLATE env) []"

definition render_login_page_with_error :: "'db auth_env \<Rightarrow> string \<Rightarrow> response" where
  "render_login_page_with_error env error_message =
     Render (TEMPLATE env) [(ERROR_PLACE_HOLDER env, error_message)]"

definition rate_limit_page :: "'db auth_env \<Rightarrow> response" where
  "rate_limit_page env =
     render_login_page_with_error env ''Too many login attempts. Please try again later.''"

subsection \<open>Credentials\<close>

text \<open>
  \<open>validate_login_credentials\<close>: on serializer errors, the first message of every field
  is collected (an empty message list makes \<open>errors[0]\<close> raise) and the first of them
  is raised as a \<open>ValueError\<close> (an empty dictionary makes the indexing raise).
\<close>

fun first_messages :: "(string \<times> string list) list \<Rightarrow> login_exception + (string \<times> string) list" where
  "first_messages [] = Inr []"
| "first_messages ((field, errors) # rest) =
     (case errors of
        [] \<Rightarrow> Inl IndexError
      | e # _ \<Rightarrow>
          (case first_messages rest of
             Inl x \<Rightarrow> Inl x
           | Inr ms \<Rightarrow> Inr ((field, e) # ms)))"

definition validate_login_credentials ::
  "'db auth_env \<Rightarrow> request \<Rightarrow> login_exception + (string option \<times> string option)" where
  "validate_login_credentials env req =
     (case serializer env (post req) of
        Valid u p \<Rightarrow> Inr (u, p)
      | Invalid errs \<Rightarrow>
          (case first_messages errs of
             Inl x \<Rightarrow> Inl x
           | Inr [] \<Rightarrow> Inl IndexError
           | Inr ((field, m) # _) \<Rightarrow> Inl (ValueError m)))"

subsection \<open>\<open>authenticate_and_login\<close>\<close>

text \<open>
  After the second \<open>authenticate\<close> succeeds the source logs the user in and then names
  \<open>UserSessionUtils\<close>, which the module never imports: that path ends in a \<open>NameError\<close>.
\<close>

definition authenticate_and_login ::
  "'db auth_env \<Rightarrow> 'db \<Rightarrow> request \<Rightarrow> string option \<Rightarrow> string option
     \<Rightarrow> (login_exception + bool) \<times> 'db \<times> auth_call list" where
  "authenticate_and_login env d req uname password =
     (let a = Authenticate uname password
      in case authenticate env d req uname password of
           Some u \<Rightarrow>
             if is_superuser u then (Inr False, d, [a])
             else (Inr True, d, [a, Login u])
         | None \<Rightarrow>
             (case set_default_user env d of
                (True, d') \<Rightarrow>
                  (case authenticate env d' req uname password of
                     Some u \<Rightarrow>
                       (Inl (NameError ''UserSessionUtils''), d', [a, SetDefaultUser, a, Login u])
                   | None \<Rightarrow> (Inr False, d', [a, SetDefaultUser, a]))
              | (False, d') \<Rightarrow> (Inr False, d', [a, SetDefaultUser])))"

subsection \<open>\<open>user_login\<close>\<close>

text \<open>
  The \<open>try\<close> of \<open>user_login\<close>: the credentials are validated, then the complexity of the
  password; \<open>len(None)\<close> is a \<open>TypeError\<close>.
\<close>

definition checked_credentials ::
  "'db auth_env \<Rightarrow> request \<Rightarrow> login_exception + (string option \<times> string option)" where
  "checked_credentials env req =
     (case validate_login_credentials env req of
        Inl x \<Rightarrow> Inl x
      | Inr (uname, password) \<Rightarrow>
          (case password of
             None \<Rightarrow> Inl TypeError
           | Some p \<Rightarrow>
               (case validate_password_complexity p of
                  Inl x \<Rightarrow> Inl x
                | Inr _ \<Rightarrow> Inr (uname, password))))"

definition user_login ::
  "'db auth_env \<Rightarrow> request \<Rightarrow> 'db service
     \<Rightarrow> (login_exception + response) \<times> 'db service \<times> auth_call list" where
  "user_login env req s =
     (let ip = get_client_ip req
      in if is_rate_limited s ip then (Inr (rate_limit_page env), s, [])
         else if request_method req = ''GET'' then (Inr (render_login_page env), s, [GetToken])
         else
           (case checked_credentials env req of
              Inl (ValueError e) \<Rightarrow>
                (Inr (Render (TEMPLATE env) [(ERROR_PLACE_HOLDER env, e)]),
                 increment_login_attempt s ip, [])
            | Inl x \<Rightarrow> (Inl x, s, [])
            | Inr (uname, password) \<Rightarrow>
                (case authenticate_and_login env (db s) req uname password of
                   (Inl x, d', calls) \<Rightarrow> (Inl x, s\<lparr>db := d'\<rparr>, calls)
                 | (Inr True, d', calls) \<Rightarrow>
                     (Inr (Redirect (WEB_APP_ORIGIN_URL env)),
                      reset_login_attempts (s\<lparr>db := d'\<rparr>) ip, calls)
                 | (Inr False, d', calls) \<Rightarrow>
                     (Inr (render_login_page_with_error env (USER_LOGIN_ERROR env)),
                      increment_login_attempt (s\<lparr>db := d'\<rparr>) ip, calls))))"

text \<open>A service instance serving requests one after the other.\<close>

fun serve ::
  "'db auth_env \<Rightarrow> request list \<Rightarrow> 'db service
     \<Rightarrow> ((login_exception + response) \<times> auth_call list) list \<times> 'db service" where
  "serve env [] s = ([], s)"
| "serve env (req # reqs) s =
     (case user_login env req s of
        (out, s', calls) \<Rightarrow>
          (case serve env reqs s' of
             (outs, s'') \<Rightarrow> ((out, calls) # outs, s'')))"

section \<open>Example inputs\<close>

text \<open>
  A deployment, an engine that answers with one result item carrying metadata, and
  collaborators that all succeed; then the same with one collaborator raising.
\<close>

definition invoice_api :: APIDeployment where
  "invoice_api =
     \<lparr>deployment_id = ''d-1'', api_name = ''invoice-extractor'', workflow = ''wf-1'',
      is_active = True, api_endpoint = ''deployment/api/org/invoice-extractor/''\<rparr>"

definition retired_api :: APIDeployment where
  "retired_api = invoice_api\<lparr>api_name := ''old-extractor'', is_active := False\<rparr>"

definition engine_result :: "string \<Rightarrow> string \<Rightarrow> ExecutionResponse" where
  "engine_result w_id eid =
     \<lparr>workflow_id = w_id, execution_id = eid, execution_status = ''COMPLETED'',
      status_api = None, error = None,
      result = Some [[(''file'', ''a.pdf''), (''metadata'', ''{}'')]]\<rparr>"

definition env_ok :: collaborators where
  "env_ok =
     \<lparr>urandom16 = 0, ERROR_value = ''ERROR'',
      add_input_file_to_api_storage = (\<lambda>w_id eid files. Inr (map (\<lambda>f. (f, ''sha'')) files)),
      execute_workflow_async = (\<lambda>w_id pid hashes timeout eid. Inr (engine_result w_id eid)),
      send_notification = (\<lambda>api r. Inr ()),
      delete_api_storage_dir = (\<lambda>w_id eid. Inr ())\<rparr>"

definition env_staging_fails :: collaborators where
  "env_staging_fails =
     env_ok\<lparr>add_input_file_to_api_storage := (\<lambda>w_id eid files. Inl (Raised ''disk full''))\<rparr>"

definition env_engine_fails :: collaborators where
  "env_engine_fails =
     env_ok\<lparr>execute_workflow_async := (\<lambda>w_id pid hashes timeout eid. Inl (Raised ''engine down''))\<rparr>"

definition env_notify_fails :: collaborators where
  "env_notify_fails = env_ok\<lparr>send_notification := (\<lambda>api r. Inl (Raised ''smtp down''))\<rparr>"

definition env_cleanup_fails :: collaborators where
  "env_cleanup_fails =
     env_engine_fails\<lparr>delete_api_storage_dir := (\<lambda>w_id eid. Inl (Raised ''permission denied''))\<rparr>"

definition key_is_secret :: "string \<Rightarrow> APIDeployment \<Rightarrow> api_exception + unit" where
  "key_is_secret api_key d = (if api_key = ''secret'' then Inr () else Inl Unauthorized)"

definition deployments :: "APIDeployment list" where
  "deployments = [invoice_api, retired_api]"

definition accepting_handler :: "APIDeployment option \<Rightarrow> api_exception + string" where
  "accepting_handler api = Inr ''accepted''"

text \<open>
  A login environment over a database that only counts the runs of \<open>_set_default_user\<close>:
  \<open>alice\<close> is an ordinary user, \<open>root\<close> a superuser, nobody else authenticates.
\<close>

definition demo_env :: "nat auth_env" where
  "demo_env =
     \<lparr>TEMPLATE = ''login.html'', ERROR_PLACE_HOLDER = ''error_message'',
      USER_LOGIN_ERROR = ''Invalid username or password'',
      WEB_APP_ORIGIN_URL = ''http://frontend.example'',
      serializer = (\<lambda>form. Valid (map_of form ''username'') (map_of form ''password'')),
      authenticate = (\<lambda>d req u p.
         if u = Some ''alice'' then Some \<lparr>username = ''alice'', is_superuser = False\<rparr>
         else if u = Some ''root'' then Some \<lparr>username = ''root'', is_superuser = True\<rparr>
         else None),
      set_default_user = (\<lambda>d. (True, Suc d))\<rparr>"

definition login_post :: "string \<Rightarrow> string \<Rightarrow> request" where
  "login_post u p =
     \<lparr>request_method = ''POST'', http_x_forwarded_for = None, remote_addr = Some ''203.0.113.7'',
      post = [(''username'', u), (''password'', p)]\<rparr>"

definition five_failures :: "request list" where
  "five_failures =
     [login_post ''mallory'' ''Correct-Horse-7battery'', login_post ''mallory'' ''Correct-Horse-7battery'',
      login_post ''mallory'' ''Correct-Horse-7battery'', login_post ''mallory'' ''Correct-Horse-7battery'',
      login_post ''mallory'' ''Correct-Horse-7battery'']"

text \<open>
  Requests of the same peer that carry an \<open>X-Forwarded-For\<close> header of the sender's
  choosing.
\<close>

definition forwarded_post :: "string \<Rightarrow> string \<Rightarrow> string \<Rightarrow> request" where
  "forwarded_post fwd u p =
     \<lparr>request_method = ''POST'', http_x_forwarded_for = Some fwd,
      remote_addr = Some ''203.0.113.7'', post = [(''username'', u), (''password'', p)]\<rparr>"

definition rotating_guesses :: "request list" where
  "rotating_guesses =
     [forwarded_post ''10.0.0.1'' ''mallory'' ''Correct-Horse-7battery'',
      forwarded_post ''10.0.0.2'' ''mallory'' ''Correct-Horse-7battery'',
      forwarded_post ''10.0.0.3'' ''mallory'' ''Correct-Horse-7battery'',
      forwarded_post ''10.0.0.4'' ''mallory'' ''Correct-Horse-7battery'',
      forwarded_post ''10.0.0.5'' ''mallory'' ''Correct-Horse-7battery'',
      forwarded_post ''10.0.0.6'' ''mallory'' ''Correct-Horse-7battery'']"

definition fresh_service :: "nat service" where
  "fresh_service = \<lparr>login_attempts = Map.empty, db = 0\<rparr>"

definition locked_service :: "nat service" where
  "locked_service = \<lparr>login_attempts = [Some ''203.0.113.7'' \<mapsto> 5], db = 0\<rparr>"

section \<open>Facts about execution identifiers and the status endpoint\<close>

lemma uuid4_zero: "uuid4 0 = 0x00000000000040008000000000000000"
  by (simp add: uuid4_def)

lemma upt_32: "[0..<32] = [0,1,2,3,4,5,6,7,8,9,10,11,12,13,14,15,16,17,18,19,20,21,22,23,24,25,26,27,28,29,30,31]"
  by (simp add: upt_rec)

lemma str_uuid_zero: "str_uuid (uuid4 0) = ''00000000-0000-4000-8000-000000000000''"
  by (simp add: uuid4_zero str_uuid_def hex32_def upt_32 hex_digit_def drop_bit_eq_div unat_div)

lemma length_hex32: "length (hex32 w) = 32"
  by (simp add: hex32_def)

lemma length_str_uuid: "length (str_uuid w) = 36"
  by (simp add: str_uuid_def Let_def length_hex32)

lemma length_new_execution_id: "length (new_execution_id env) = 36"
  by (simp add: new_execution_id_def length_str_uuid)

lemma hex_digit_mem: "hex_digit n \<in> set ''0123456789abcdef''"
  unfolding hex_digit_def by (rule nth_mem) simp

lemma hex_digit_safe: "always_safe (hex_digit n)"
proof -
  have "set ''0123456789abcdef'' \<subseteq> {c. always_safe c}"
    by (simp add: always_safe_def)
  with hex_digit_mem [of n] show ?thesis by blast
qed

lemma hex32_safe: "c \<in> set (hex32 w) \<Longrightarrow> always_safe c"
  by (auto simp: hex32_def hex_digit_safe)

lemma dash_safe: "always_safe CHR ''-''"
  by (simp add: always_safe_def)

lemma str_uuid_safe: "c \<in> set (str_uuid w) \<Longrightarrow> always_safe c"
  by (auto simp: str_uuid_def Let_def dash_safe dest!: in_set_takeD in_set_dropD hex32_safe)

lemma quote_plus_safe: "(\<And>c. c \<in> set s \<Longrightarrow> always_safe c) \<Longrightarrow> quote_plus s = s"
  by (induction s) (auto simp: quote_plus_def quote_char_def)

lemma quote_plus_key: "quote_plus ''execution_id'' = ''execution_id''"
  by (simp add: quote_plus_def quote_char_def always_safe_def)

lemma status_endpoint_uuid:
  "construct_status_endpoint ep (str_uuid w) = ''/'' @ ep @ ''?execution_id='' @ str_uuid w"
  by (simp add: construct_status_endpoint_def urlencode_def quote_plus_key quote_plus_safe str_uuid_safe)

lemma status_api_post_process:
  "status_api (post_process api eid im r0) = Some (construct_status_endpoint (api_endpoint api) eid)"
  by (simp add: post_process_def Let_def remove_result_metadata_keys_def)

lemma execution_id_post_process: "execution_id (post_process api eid im r0) = execution_id r0"
  by (simp add: post_process_def Let_def remove_result_metadata_keys_def)

lemma execution_status_post_process: "execution_status (post_process api eid im r0) = execution_status r0"
  by (simp add: post_process_def Let_def remove_result_metadata_keys_def)

lemma result_post_process_keep: "result (post_process api eid True r0) = result r0"
  by (simp add: post_process_def Let_def)

lemma no_metadata_after_removal: "\<not> has_metadata (remove_result_metadata_keys r)"
  by (cases "result r") (auto simp: has_metadata_def remove_result_metadata_keys_def list_ex_iff)

lemma no_metadata_post_process: "\<not> has_metadata (post_process api eid False r0)"
  by (simp add: post_process_def Let_def no_metadata_after_removal)

section \<open>Facts about the dispatcher\<close>

text \<open>The three ways the guarded block ends.\<close>

lemma try_block_engine_raises:
  "execute_workflow_async env (workflow api) (deployment_id api) h t eid = Inl e \<Longrightarrow>
   try_block env api h t im eid = (Inl e, [ExecuteWorkflowAsync (workflow api) (deployment_id api) h t eid])"
  by (simp add: try_block_def)

lemma try_block_notify_raises:
  "execute_workflow_async env (workflow api) (deployment_id api) h t eid = Inr r0 \<Longrightarrow>
   send_notification env api (post_process api eid im r0) = Inl e \<Longrightarrow>
   try_block env api h t im eid =
     (Inl e, [ExecuteWorkflowAsync (workflow api) (deployment_id api) h t eid,
              SendNotification api (post_process api eid im r0)])"
  by (simp add: try_block_def Let_def)

lemma try_block_succeeds:
  "execute_workflow_async env (workflow api) (deployment_id api) h t eid = Inr r0 \<Longrightarrow>
   send_notification env api (post_process api eid im r0) = Inr u \<Longrightarrow>
   try_block env api h t im eid =
     (Inr (post_process api eid im r0),
      [ExecuteWorkflowAsync (workflow api) (deployment_id api) h t eid,
       SendNotification api (post_process api eid im r0)])"
  by (simp add: try_block_def Let_def)

lemma try_block_result:
  "fst (try_block env api h t im eid) = Inr r \<Longrightarrow>
   \<exists>r0. execute_workflow_async env (workflow api) (deployment_id api) h t eid = Inr r0
        \<and> r = post_process api eid im r0"
  by (auto simp: try_block_def Let_def split: sum.splits)

lemma execute_workflow_try_ok:
  "add_input_file_to_api_storage env (workflow api) (new_execution_id env) files = Inr h \<Longrightarrow>
   try_block env api h t im (new_execution_id env) = (Inr r, calls) \<Longrightarrow>
   execute_workflow env org api files t im =
     (Inr r, AddInputFileToApiStorage (workflow api) (new_execution_id env) files # calls)"
  by (simp add: execute_workflow_def Let_def)

lemma execute_workflow_try_failed:
  "add_input_file_to_api_storage env (workflow api) (new_execution_id env) files = Inr h \<Longrightarrow>
   try_block env api h t im (new_execution_id env) = (Inl err, calls) \<Longrightarrow>
   execute_workflow env org api files t im =
     (case delete_api_storage_dir env (workflow api) (new_execution_id env) of
        Inl e \<Rightarrow> Inl e
      | Inr _ \<Rightarrow> Inr \<lparr>workflow_id = workflow api, execution_id = new_execution_id env,
                      execution_status = ERROR_value env, status_api = None,
                      error = Some (str_raised err), result = None\<rparr>,
      AddInputFileToApiStorage (workflow api) (new_execution_id env) files # calls
        @ [DeleteApiStorageDir (workflow api) (new_execution_id env)])"
  by (simp add: execute_workflow_def Let_def split: sum.splits)

lemmas example_envs =
  env_ok_def env_staging_fails_def env_engine_fails_def env_notify_fails_def
  env_cleanup_fails_def invoice_api_def engine_result_def

lemma example_ids:
  "new_execution_id env_ok = ''00000000-0000-4000-8000-000000000000''"
  "new_execution_id env_staging_fails = ''00000000-0000-4000-8000-000000000000''"
  "new_execution_id env_engine_fails = ''00000000-0000-4000-8000-000000000000''"
  "new_execution_id env_notify_fails = ''00000000-0000-4000-8000-000000000000''"
  "new_execution_id env_cleanup_fails = ''00000000-0000-4000-8000-000000000000''"
  by (simp_all add: new_execution_id_def example_envs str_uuid_zero)

lemma invoice_api_fields:
  "workflow invoice_api = ''wf-1''"
  "deployment_id invoice_api = ''d-1''"
  "api_endpoint invoice_api = ''deployment/api/org/invoice-extractor/''"
  by (simp_all add: invoice_api_def)

lemma example_error_values:
  "ERROR_value env_ok = ''ERROR''"
  "ERROR_value env_engine_fails = ''ERROR''"
  "ERROR_value env_notify_fails = ''ERROR''"
  by (simp_all add: example_envs)

lemma env_ok_calls:
  "add_input_file_to_api_storage env_ok w e files = Inr (map (\<lambda>f. (f, ''sha'')) files)"
  "execute_workflow_async env_ok w p h t e = Inr (engine_result w e)"
  "send_notification env_ok a r = Inr ()"
  "delete_api_storage_dir env_ok w e = Inr ()"
  by (simp_all add: env_ok_def)

lemma env_engine_fails_calls:
  "add_input_file_to_api_storage env_engine_fails w e files = Inr (map (\<lambda>f. (f, ''sha'')) files)"
  "execute_workflow_async env_engine_fails w p h t e = Inl (Raised ''engine down'')"
  "delete_api_storage_dir env_engine_fails w e = Inr ()"
  by (simp_all add: env_engine_fails_def env_ok_def)

lemma env_notify_fails_calls:
  "add_input_file_to_api_storage env_notify_fails w e files = Inr (map (\<lambda>f. (f, ''sha'')) files)"
  "execute_workflow_async env_notify_fails w p h t e = Inr (engine_result w e)"
  "send_notification env_notify_fails a r = Inl (Raised ''smtp down'')"
  "delete_api_storage_dir env_notify_fails w e = Inr ()"
  by (simp_all add: env_notify_fails_def env_ok_def)

section \<open>Facts about the validator and the login path\<close>

lemma get_deployment_absent:
  "\<forall>d \<in> set table. Some (api_name d) \<noteq> name \<Longrightarrow> get_deployment_by_api_name table name = Inr None"
proof -
  assume "\<forall>d \<in> set table. Some (api_name d) \<noteq> name"
  then have "filter (\<lambda>d. Some (api_name d) = name) table = []"
    by (simp add: filter_empty_conv)
  then show ?thesis
    by (simp add: get_deployment_by_api_name_def objects_get_def)
qed

lemma attempts_db: "attempts (s\<lparr>db := d\<rparr>) ip = attempts s ip"
  by (simp add: attempts_def)

lemma attempts_increment:
  "attempts (increment_login_attempt s ip') ip = (if ip = ip' then attempts s ip' + 1 else attempts s ip)"
  by (simp add: attempts_def increment_login_attempt_def)

lemma attempts_reset:
  "attempts (reset_login_attempts s ip') ip = (if ip = ip' then 0 else attempts s ip)"
  by (auto simp: attempts_def reset_login_attempts_def split: option.splits)

lemma user_login_limited:
  "is_rate_limited s (get_client_ip req) \<Longrightarrow> user_login env req s = (Inr (rate_limit_page env), s, [])"
  by (simp add: user_login_def)

lemma user_login_other_ip:
  "get_client_ip req \<noteq> ip \<Longrightarrow> attempts (fst (snd (user_login env req s))) ip = attempts s ip"
  by (auto simp: user_login_def Let_def attempts_db attempts_increment attempts_reset
      split: sum.splits login_exception.splits prod.splits bool.splits)

lemma user_login_keeps_limit:
  assumes "is_rate_limited s ip"
  shows "attempts (fst (snd (user_login env req s))) ip = attempts s ip"
proof (cases "get_client_ip req = ip")
  case True
  with assms show ?thesis by (simp add: user_login_limited)
next
  case False
  then show ?thesis by (rule user_login_other_ip)
qed

lemma serve_Cons:
  "serve env (req # reqs) s =
     ((fst (user_login env req s), snd (snd (user_login env req s)))
        # fst (serve env reqs (fst (snd (user_login env req s)))),
      snd (serve env reqs (fst (snd (user_login env req s)))))"
  by (simp split: prod.splits)

lemma serve_keeps_limit:
  "is_rate_limited s ip \<Longrightarrow> attempts (snd (serve env reqs s)) ip = attempts s ip"
proof (induction reqs arbitrary: s)
  case Nil
  then show ?case by simp
next
  case (Cons req reqs)
  let ?s' = "fst (snd (user_login env req s))"
  have keep: "attempts ?s' ip = attempts s ip"
    using Cons.prems by (rule user_login_keeps_limit)
  with Cons.prems have "is_rate_limited ?s' ip"
    by (simp add: is_rate_limited_def)
  from Cons.IH [OF this] keep show ?case
    by (simp add: serve_Cons del: serve.simps)
qed

lemma serve_limited_nth:
  "is_rate_limited s ip \<Longrightarrow> i < length reqs \<Longrightarrow> get_client_ip (reqs ! i) = ip \<Longrightarrow>
   fst (serve env reqs s) ! i = (Inr (rate_limit_page env), [])"
proof (induction reqs arbitrary: s i)
  case Nil
  then show ?case by simp
next
  case (Cons req reqs)
  let ?s' = "fst (snd (user_login env req s))"
  show ?case
  proof (cases i)
    case 0
    with Cons.prems have "user_login env req s = (Inr (rate_limit_page env), s, [])"
      by (simp add: user_login_limited)
    with 0 show ?thesis by (simp add: serve_Cons del: serve.simps)
  next
    case (Suc j)
    have "attempts ?s' ip = attempts s ip"
      using Cons.prems(1) by (rule user_login_keeps_limit)
    with Cons.prems(1) have lim': "is_rate_limited ?s' ip"
      by (simp add: is_rate_limited_def)
    from Suc Cons.prems have "j < length reqs" "get_client_ip (reqs ! j) = ip" by simp_all
    from Cons.IH [OF lim' this] Suc show ?thesis
      by (simp add: serve_Cons del: serve.simps)
  qed
qed

lemma weak_password_rejected:
  "weak_password p \<Longrightarrow> \<exists>m. validate_password_complexity p = Inl (ValueError m)"
  by (auto simp: weak_password_def validate_password_complexity_def re_search_def list_ex_iff)

lemma strong_password_accepted:
  "\<not> weak_password p \<Longrightarrow> validate_password_complexity p = Inr ()"
  by (auto simp: weak_password_def validate_password_complexity_def re_search_def list_ex_iff)


section \<open>Claims about the dispatcher\<close>

text \<open>
  Claim C1, as amended. For every deployment, list of uploaded files, timeout and
  \<open>include_metadata\<close> flag: when staging the input files returns, and the cleanup call
  returns, \<open>execute_workflow\<close> returns an \<open>ExecutionResponse\<close> and no exception leaves it,
  also when the engine invocation or the notification raises. Its \<open>execution_id\<close> is
  the identifier generated for the dispatch, 36 characters long, given that a result
  the engine returns carries the identifier the engine was called with.
\<close>

theorem execute_workflow_returns_result:
  assumes staged:
      "add_input_file_to_api_storage env (workflow api) (new_execution_id env) files = Inr h"
    and cleanup: "delete_api_storage_dir env (workflow api) (new_execution_id env) = Inr ()"
    and echo:
      "case execute_workflow_async env (workflow api) (deployment_id api) h t (new_execution_id env) of
         Inl e \<Rightarrow> True
       | Inr r0 \<Rightarrow> execution_id r0 = new_execution_id env"
  shows "\<exists>r. fst (execute_workflow env org api files t im) = Inr r
             \<and> execution_id r = new_execution_id env \<and> length (execution_id r) = 36"
proof (cases "try_block env api h t im (new_execution_id env)")
  case (Pair out calls)
  show ?thesis
  proof (cases out)
    case (Inl err)
    with Pair staged cleanup show ?thesis
      by (simp add: execute_workflow_try_failed length_new_execution_id)
  next
    case (Inr r)
    with Pair have "fst (try_block env api h t im (new_execution_id env)) = Inr r" by simp
    then obtain r0 where
      r0: "execute_workflow_async env (workflow api) (deployment_id api) h t (new_execution_id env) = Inr r0"
      and r: "r = post_process api (new_execution_id env) im r0"
      using try_block_result by blast
    from echo r0 have "execution_id r0 = new_execution_id env" by simp
    with r have "execution_id r = new_execution_id env"
      by (simp add: execution_id_post_process)
    with Pair Inr staged show ?thesis
      by (simp add: execute_workflow_try_ok length_new_execution_id)
  qed
qed

text \<open>
  The engine raises: the result is the error result with the generated identifier.
\<close>

theorem execute_workflow_returns_result_witness:
  "add_input_file_to_api_storage env_engine_fails (workflow invoice_api)
       (new_execution_id env_engine_fails) [''a.pdf''] = Inr [(''a.pdf'', ''sha'')]
   \<and> (\<exists>r. fst (execute_workflow env_engine_fails ''org'' invoice_api [''a.pdf''] 30 False) = Inr r
          \<and> execution_id r = ''00000000-0000-4000-8000-000000000000''
          \<and> execution_status r = ''ERROR'' \<and> error r = Some ''engine down'')"
proof -
  have id: "new_execution_id env_engine_fails = ''00000000-0000-4000-8000-000000000000''"
    by (rule example_ids)
  have staged: "add_input_file_to_api_storage env_engine_fails (workflow invoice_api)
      (new_execution_id env_engine_fails) [''a.pdf''] = Inr [(''a.pdf'', ''sha'')]"
    by (simp add: example_envs)
  have cleanup: "delete_api_storage_dir env_engine_fails (workflow invoice_api)
      (new_execution_id env_engine_fails) = Inr ()"
    by (simp add: example_envs)
  have echo: "case execute_workflow_async env_engine_fails (workflow invoice_api)
      (deployment_id invoice_api) [(''a.pdf'', ''sha'')] 30 (new_execution_id env_engine_fails) of
         Inl e \<Rightarrow> True
       | Inr r0 \<Rightarrow> execution_id r0 = new_execution_id env_engine_fails"
    by (simp add: example_envs)
  from execute_workflow_returns_result [OF staged cleanup echo, where org = "''org''" and im = False]
  obtain r where r: "fst (execute_workflow env_engine_fails ''org'' invoice_api [''a.pdf''] 30 False) = Inr r"
    and "execution_id r = new_execution_id env_engine_fails"
    by blast
  then have e: "execution_id r = ''00000000-0000-4000-8000-000000000000''"
    using id by simp
  have "fst (execute_workflow env_engine_fails ''org'' invoice_api [''a.pdf''] 30 False)
      = Inr \<lparr>workflow_id = ''wf-1'', execution_id = ''00000000-0000-4000-8000-000000000000'',
             execution_status = ''ERROR'', status_api = None, error = Some ''engine down'',
             result = None\<rparr>"
    by (simp add: execute_workflow_def Let_def id) (simp add: try_block_def Let_def example_envs)
  with r have "execution_status r = ''ERROR'' \<and> error r = Some ''engine down''"
    by auto
  with staged r e show ?thesis by blast
qed

text \<open>
  Claim C1 as stated fails: an exception raised while staging leaves
  \<open>execute_workflow\<close>, and so does one raised by the cleanup inside the handler.
\<close>

theorem staging_failure_escapes:
  "fst (execute_workflow env_staging_fails ''org'' invoice_api [''a.pdf''] 30 False)
     = Inl (Raised ''disk full'')
   \<and> \<not> (\<exists>r. fst (execute_workflow env_staging_fails ''org'' invoice_api [''a.pdf''] 30 False) = Inr r
            \<and> execution_id r \<noteq> [])
   \<and> fst (execute_workflow env_cleanup_fails ''org'' invoice_api [''a.pdf''] 30 False)
     = Inl (Raised ''permission denied'')"
  by (simp add: execute_workflow_def Let_def example_ids) (simp add: try_block_def Let_def example_envs)

text \<open>
  Claim C2, as amended. For every dispatch in which staging returned and the engine
  invocation or the notification then raises (the post-processing between them cannot
  raise), the last call \<open>execute_workflow\<close> makes is the deletion of the staging
  directory keyed by the workflow id and the execution id; when the deletion returns,
  the result is the error result carrying the cause, the execution id and the workflow
  id, and when it raises, its exception is what leaves the function.
\<close>

theorem cleanup_after_guarded_failure:
  assumes staged:
      "add_input_file_to_api_storage env (workflow api) (new_execution_id env) files = Inr h"
    and failed:
      "execute_workflow_async env (workflow api) (deployment_id api) h t (new_execution_id env) = Inl err
       \<or> (\<exists>r0. execute_workflow_async env (workflow api) (deployment_id api) h t (new_execution_id env)
                  = Inr r0
               \<and> send_notification env api (post_process api (new_execution_id env) im r0) = Inl err)"
  shows "last (snd (execute_workflow env org api files t im))
           = DeleteApiStorageDir (workflow api) (new_execution_id env)
       \<and> fst (execute_workflow env org api files t im)
           = (case delete_api_storage_dir env (workflow api) (new_execution_id env) of
                Inl e \<Rightarrow> Inl e
              | Inr u \<Rightarrow> Inr \<lparr>workflow_id = workflow api, execution_id = new_execution_id env,
                              execution_status = ERROR_value env, status_api = None,
                              error = Some (str_raised err), result = None\<rparr>)"
proof -
  from failed obtain calls where
    "try_block env api h t im (new_execution_id env) = (Inl err, calls)"
    by (auto simp: try_block_engine_raises try_block_notify_raises)
  with staged show ?thesis
    by (simp add: execute_workflow_try_failed)
qed

text \<open>The notification raises after a successful engine call: the directory is deleted.\<close>

theorem cleanup_after_guarded_failure_witness:
  "last (snd (execute_workflow env_notify_fails ''org'' invoice_api [''a.pdf''] 30 True))
     = DeleteApiStorageDir ''wf-1'' ''00000000-0000-4000-8000-000000000000''
   \<and> fst (execute_workflow env_notify_fails ''org'' invoice_api [''a.pdf''] 30 True)
     = Inr \<lparr>workflow_id = ''wf-1'', execution_id = ''00000000-0000-4000-8000-000000000000'',
            execution_status = ''ERROR'', status_api = None, error = Some ''smtp down'',
            result = None\<rparr>"
proof -
  have id: "new_execution_id env_notify_fails = ''00000000-0000-4000-8000-000000000000''"
    by (rule example_ids)
  have cleanup: "delete_api_storage_dir env_notify_fails (workflow invoice_api)
      (new_execution_id env_notify_fails) = Inr ()"
    by (simp add: example_envs)
  have staged: "add_input_file_to_api_storage env_notify_fails (workflow invoice_api)
      (new_execution_id env_notify_fails) [''a.pdf''] = Inr [(''a.pdf'', ''sha'')]"
    by (simp add: example_envs)
  have failed:
    "execute_workflow_async env_notify_fails (workflow invoice_api) (deployment_id invoice_api)
        [(''a.pdf'', ''sha'')] 30 (new_execution_id env_notify_fails) = Inl (Raised ''smtp down'')
     \<or> (\<exists>r0. execute_workflow_async env_notify_fails (workflow invoice_api) (deployment_id invoice_api)
                [(''a.pdf'', ''sha'')] 30 (new_execution_id env_notify_fails) = Inr r0
             \<and> send_notification env_notify_fails invoice_api
                  (post_process invoice_api (new_execution_id env_notify_fails) True r0)
                = Inl (Raised ''smtp down''))"
    by (simp add: example_envs)
  from cleanup_after_guarded_failure [OF staged failed, where org = "''org''"] cleanup
  show ?thesis
    by (simp add: id invoice_api_fields example_error_values)
qed

text \<open>
  Claim C2 as stated fails for the staging step: when staging raises, no deletion of
  the staging directory is among the calls made.
\<close>

theorem staging_failure_skips_cleanup:
  "snd (execute_workflow env_staging_fails ''org'' invoice_api [''a.pdf''] 30 False)
     = [AddInputFileToApiStorage ''wf-1'' ''00000000-0000-4000-8000-000000000000'' [''a.pdf'']]
   \<and> DeleteApiStorageDir ''wf-1'' ''00000000-0000-4000-8000-000000000000''
       \<notin> set (snd (execute_workflow env_staging_fails ''org'' invoice_api [''a.pdf''] 30 False))"
  by (simp add: execute_workflow_def Let_def example_ids) (simp add: example_envs)

text \<open>
  Claim C5, as amended. For every dispatch in which staging returned: when the engine
  invocation raises, no notification is sent; when it returns, exactly one notification
  is sent, for the deployment and the post-processed result. The notification call
  stands inside the guarded block: when it returns, the post-processed result is
  returned, and when it raises, the staging directory is deleted and the error result
  carrying the notification's failure is returned in place of the engine's result.
\<close>

theorem notification_follows_success:
  assumes staged:
      "add_input_file_to_api_storage env (workflow api) (new_execution_id env) files = Inr h"
  shows "case execute_workflow_async env (workflow api) (deployment_id api) h t (new_execution_id env) of
           Inl e \<Rightarrow> notifications (snd (execute_workflow env org api files t im)) = []
         | Inr r0 \<Rightarrow>
             notifications (snd (execute_workflow env org api files t im))
               = [(api, post_process api (new_execution_id env) im r0)]
             \<and> (case send_notification env api (post_process api (new_execution_id env) im r0) of
                  Inr u \<Rightarrow> fst (execute_workflow env org api files t im)
                             = Inr (post_process api (new_execution_id env) im r0)
                | Inl e \<Rightarrow>
                    last (snd (execute_workflow env org api files t im))
                      = DeleteApiStorageDir (workflow api) (new_execution_id env)
                    \<and> (case delete_api_storage_dir env (workflow api) (new_execution_id env) of
                         Inl e' \<Rightarrow> fst (execute_workflow env org api files t im) = Inl e'
                       | Inr u \<Rightarrow> fst (execute_workflow env org api files t im)
                            = Inr \<lparr>workflow_id = workflow api, execution_id = new_execution_id env,
                                   execution_status = ERROR_value env, status_api = None,
                                   error = Some (str_raised e), result = None\<rparr>))"
  using staged
  by (simp add: try_block_engine_raises try_block_notify_raises try_block_succeeds
      execute_workflow_try_ok execute_workflow_try_failed split: sum.splits)

text \<open>Every collaborator succeeds: one notification, for the result that is returned.\<close>

theorem notification_follows_success_witness:
  "notifications (snd (execute_workflow env_ok ''org'' invoice_api [''a.pdf''] 30 False))
     = [(invoice_api,
         post_process invoice_api ''00000000-0000-4000-8000-000000000000'' False
           (engine_result ''wf-1'' ''00000000-0000-4000-8000-000000000000''))]
   \<and> fst (execute_workflow env_ok ''org'' invoice_api [''a.pdf''] 30 False)
     = Inr (post_process invoice_api ''00000000-0000-4000-8000-000000000000'' False
              (engine_result ''wf-1'' ''00000000-0000-4000-8000-000000000000''))"
proof -
  have staged: "add_input_file_to_api_storage env_ok (workflow invoice_api)
      (new_execution_id env_ok) [''a.pdf''] = Inr [(''a.pdf'', ''sha'')]"
    by (simp add: env_ok_calls)
  from notification_follows_success [OF staged, where t = 30 and org = "''org''" and im = False]
  show ?thesis
    by (simp add: env_ok_calls example_ids invoice_api_fields)
qed

text \<open>
  Claim C5 as stated fails on both counts: when the engine raises no notification is
  sent, and when the notification raises after an engine result in state
  \<open>COMPLETED\<close>, the result returned is in the error state and the cleanup has run.
\<close>

theorem notification_coupled_to_try:
  "notifications (snd (execute_workflow env_engine_fails ''org'' invoice_api [''a.pdf''] 30 False)) = []
   \<and> execution_status (engine_result ''wf-1'' ''00000000-0000-4000-8000-000000000000'') = ''COMPLETED''
   \<and> fst (execute_workflow env_notify_fails ''org'' invoice_api [''a.pdf''] 30 False)
     = Inr \<lparr>workflow_id = ''wf-1'', execution_id = ''00000000-0000-4000-8000-000000000000'',
            execution_status = ''ERROR'', status_api = None, error = Some ''smtp down'',
            result = None\<rparr>
   \<and> last (snd (execute_workflow env_notify_fails ''org'' invoice_api [''a.pdf''] 30 False))
     = DeleteApiStorageDir ''wf-1'' ''00000000-0000-4000-8000-000000000000''"
  by (simp add: execute_workflow_def try_block_def Let_def example_ids invoice_api_fields
      env_engine_fails_calls env_notify_fails_calls example_error_values)
     (simp add: engine_result_def)

text \<open>
  Claim C6. For every successful dispatch (staging, the engine invocation and the
  notification all return) the result returned carries as \<open>status_api\<close> the deployment's
  endpoint path, written as an absolute path, followed by \<open>?execution_id=\<close> and the
  generated execution id: the id is appended as a query parameter, and nothing in it
  needs escaping.
\<close>

theorem status_api_carries_execution_id:
  assumes staged:
      "add_input_file_to_api_storage env (workflow api) (new_execution_id env) files = Inr h"
    and engine:
      "execute_workflow_async env (workflow api) (deployment_id api) h t (new_execution_id env) = Inr r0"
    and notified:
      "send_notification env api (post_process api (new_execution_id env) im r0) = Inr ()"
  shows "\<exists>r. fst (execute_workflow env org api files t im) = Inr r
           \<and> status_api r = Some (''/'' @ api_endpoint api @ ''?execution_id='' @ new_execution_id env)"
  using assms
  by (simp add: try_block_succeeds execute_workflow_try_ok status_api_post_process
      new_execution_id_def status_endpoint_uuid)

text \<open>Two files, a timeout of 30, and an engine that answers.\<close>

theorem status_api_carries_execution_id_witness:
  "\<exists>r. fst (execute_workflow env_ok ''org'' invoice_api [''a.pdf'', ''b.pdf''] 30 False) = Inr r
      \<and> status_api r =
          Some ''/deployment/api/org/invoice-extractor/?execution_id=00000000-0000-4000-8000-000000000000''"
proof -
  have staged: "add_input_file_to_api_storage env_ok (workflow invoice_api)
      (new_execution_id env_ok) [''a.pdf'', ''b.pdf''] = Inr [(''a.pdf'', ''sha''), (''b.pdf'', ''sha'')]"
    by (simp add: env_ok_calls)
  have engine: "execute_workflow_async env_ok (workflow invoice_api) (deployment_id invoice_api)
      [(''a.pdf'', ''sha''), (''b.pdf'', ''sha'')] 30 (new_execution_id env_ok)
      = Inr (engine_result (workflow invoice_api) (new_execution_id env_ok))"
    by (simp add: env_ok_calls)
  have notified: "send_notification env_ok invoice_api
      (post_process invoice_api (new_execution_id env_ok) False
         (engine_result (workflow invoice_api) (new_execution_id env_ok))) = Inr ()"
    by (simp add: env_ok_calls)
  from status_api_carries_execution_id [OF staged engine notified, where org = "''org''"]
  show ?thesis
    by (simp add: example_ids invoice_api_fields)
qed

text \<open>
  Claim C7. For every successful dispatch: with \<open>include_metadata\<close> false the result
  returned has no metadata field in any of its items; with \<open>include_metadata\<close> true its
  result items are the ones the engine provided, unmodified.
\<close>

theorem metadata_follows_flag:
  assumes staged:
      "add_input_file_to_api_storage env (workflow api) (new_execution_id env) files = Inr h"
    and engine:
      "execute_workflow_async env (workflow api) (deployment_id api) h t (new_execution_id env) = Inr r0"
    and notified:
      "send_notification env api (post_process api (new_execution_id env) im r0) = Inr ()"
  shows "\<exists>r. fst (execute_workflow env org api files t im) = Inr r
           \<and> (if im then result r = result r0 else \<not> has_metadata r)"
  using assms
  by (cases im)
     (simp_all add: try_block_succeeds execute_workflow_try_ok result_post_process_keep
        no_metadata_post_process)

text \<open>The engine's result has a metadata field; without the flag the answer has none.\<close>

theorem metadata_follows_flag_witness:
  "has_metadata (engine_result ''wf-1'' ''00000000-0000-4000-8000-000000000000'')
   \<and> (\<exists>r. fst (execute_workflow env_ok ''org'' invoice_api [''a.pdf''] 30 False) = Inr r
          \<and> \<not> has_metadata r)
   \<and> (\<exists>r. fst (execute_workflow env_ok ''org'' invoice_api [''a.pdf''] 30 True) = Inr r
          \<and> result r = Some [[(''file'', ''a.pdf''), (''metadata'', ''{}'')]])"
proof -
  have staged: "add_input_file_to_api_storage env_ok (workflow invoice_api)
      (new_execution_id env_ok) [''a.pdf''] = Inr [(''a.pdf'', ''sha'')]"
    by (simp add: env_ok_calls)
  have engine: "execute_workflow_async env_ok (workflow invoice_api) (deployment_id invoice_api)
      [(''a.pdf'', ''sha'')] 30 (new_execution_id env_ok)
      = Inr (engine_result (workflow invoice_api) (new_execution_id env_ok))"
    by (simp add: env_ok_calls)
  have notified: "\<And>im. send_notification env_ok invoice_api
      (post_process invoice_api (new_execution_id env_ok) im
         (engine_result (workflow invoice_api) (new_execution_id env_ok))) = Inr ()"
    by (simp add: env_ok_calls)
  have "has_metadata (engine_result ''wf-1'' ''00000000-0000-4000-8000-000000000000'')"
    by (simp add: has_metadata_def engine_result_def)
  moreover from metadata_follows_flag [OF staged engine notified, where org = "''org''" and im = False]
  have "\<exists>r. fst (execute_workflow env_ok ''org'' invoice_api [''a.pdf''] 30 False) = Inr r
          \<and> \<not> has_metadata r"
    by simp
  moreover from metadata_follows_flag [OF staged engine notified, where org = "''org''" and im = True]
  have "\<exists>r. fst (execute_workflow env_ok ''org'' invoice_api [''a.pdf''] 30 True) = Inr r
          \<and> result r = Some [[(''file'', ''a.pdf''), (''metadata'', ''{}'')]]"
    by (simp add: engine_result_def)
  ultimately show ?thesis by simp
qed

section \<open>Claims about the validator\<close>

text \<open>
  Claim C3. For every \<open>api_name\<close> that no deployment record carries, the lookup
  yields no deployment, \<open>validate_api\<close> raises \<open>APINotFound\<close>, and the validation as
  \<open>validate_and_process\<close> runs it raises \<open>APINotFound\<close> having called neither the key
  check nor the handler.
\<close>

theorem validate_unknown_api_not_found:
  assumes absent: "\<forall>d \<in> set table. Some (api_name d) \<noteq> py_or kwargs_api_name data_api_name"
  shows "get_deployment_by_api_name table (py_or kwargs_api_name data_api_name) = Inr None
       \<and> validate_api validate_api_key None api_key = (Inl APINotFound, [])
       \<and> validate_and_process table validate_api_key func api_key kwargs_api_name data_api_name
           = (Inl APINotFound, [])"
  using get_deployment_absent [OF absent]
  by (simp add: validate_and_process_def validate_api_def)

text \<open>A name that is not deployed, with the right key.\<close>

theorem validate_unknown_api_not_found_witness:
  "validate_and_process deployments key_is_secret accepting_handler ''secret'' (Some ''missing'') None
     = (Inl APINotFound, [])"
proof -
  have "\<forall>d \<in> set deployments. Some (api_name d) \<noteq> py_or (Some ''missing'') None"
    by (simp add: deployments_def invoice_api_def retired_api_def py_or_def)
  from validate_unknown_api_not_found [OF this, where func = accepting_handler
      and validate_api_key = key_is_secret and api_key = "''secret''"]
  show ?thesis by simp
qed

text \<open>
  Claim C4. For every deployment whose \<open>is_active\<close> flag is false and for every key,
  \<open>validate_api\<close> raises \<open>InactiveAPI\<close> without calling the key check, whatever the key
  check would answer; so does the validation of a request whose name finds that
  deployment.
\<close>

theorem validate_inactive_before_key:
  assumes inactive: "\<not> is_active d"
  shows "validate_api validate_api_key (Some d) api_key = (Inl InactiveAPI, [])
       \<and> (get_deployment_by_api_name table (py_or kwargs_api_name data_api_name) = Inr (Some d) \<longrightarrow>
            validate_and_process table validate_api_key func api_key kwargs_api_name data_api_name
              = (Inl InactiveAPI, []))"
  using inactive by (simp add: validate_and_process_def validate_api_def)

text \<open>A retired deployment, called with the key that the key check accepts.\<close>

theorem validate_inactive_before_key_witness:
  "key_is_secret ''secret'' retired_api = Inr ()
   \<and> validate_api key_is_secret (Some retired_api) ''secret'' = (Inl InactiveAPI, [])
   \<and> validate_and_process deployments key_is_secret accepting_handler ''secret''
        (Some ''old-extractor'') None = (Inl InactiveAPI, [])"
proof -
  have inactive: "\<not> is_active retired_api"
    by (simp add: retired_api_def)
  have found: "get_deployment_by_api_name deployments (py_or (Some ''old-extractor'') None)
      = Inr (Some retired_api)"
    by (simp add: get_deployment_by_api_name_def objects_get_def deployments_def py_or_def
        invoice_api_def retired_api_def)
  from validate_inactive_before_key [OF inactive, where table = deployments
      and kwargs_api_name = "Some ''old-extractor''" and data_api_name = None
      and func = accepting_handler and validate_api_key = key_is_secret
      and api_key = "''secret''"] found
  show ?thesis by (simp add: key_is_secret_def)
qed

section \<open>Claims about the login path\<close>

text \<open>
  Claim C8, as amended. The limiter is keyed by what \<open>_get_client_ip\<close> computes for a
  request: the first element of its \<open>X-Forwarded-For\<close> header when that header is
  present and not empty, else its \<open>REMOTE_ADDR\<close>. Once the counter of failed attempts
  of a key has reached 5 on a service instance, every later \<open>user_login\<close> whose request
  carries that key, whatever else the instance serves in between, answers with the
  rate-limit page without any call to \<open>authenticate\<close> or \<open>login\<close>, the counter of that
  key stays as it is and the key stays limited. Nothing in the source lets a window
  expire, and a successful login, which would reset the counter, cannot come from a
  limited key: the lock lasts as long as the instance.
\<close>

theorem rate_limit_lockout:
  assumes "is_rate_limited s ip" and "i < length reqs" and "get_client_ip (reqs ! i) = ip"
  shows "fst (serve env reqs s) ! i = (Inr (rate_limit_page env), [])
       \<and> attempts (snd (serve env reqs s)) ip = attempts s ip
       \<and> is_rate_limited (snd (serve env reqs s)) ip"
  using assms by (simp add: serve_limited_nth serve_keeps_limit is_rate_limited_def)

text \<open>
  Five failed logins from one address on a fresh instance, then a login with good
  credentials from the same address: it is answered with the rate-limit page.
\<close>

theorem rate_limit_lockout_witness:
  "attempts (snd (serve demo_env five_failures fresh_service)) (Some ''203.0.113.7'') = 5
   \<and> authenticate demo_env 5 (login_post ''alice'' ''Correct-Horse-7battery'')
        (Some ''alice'') (Some ''Correct-Horse-7battery'')
       = Some \<lparr>username = ''alice'', is_superuser = False\<rparr>
   \<and> fst (serve demo_env [login_post ''alice'' ''Correct-Horse-7battery'']
            (snd (serve demo_env five_failures fresh_service))) ! 0
       = (Inr (Render ''login.html''
                 [(''error_message'', ''Too many login attempts. Please try again later.'')]), [])"
proof -
  have five: "attempts (snd (serve demo_env five_failures fresh_service)) (Some ''203.0.113.7'') = 5"
    by (simp add: five_failures_def fresh_service_def login_post_def demo_env_def
        user_login_def checked_credentials_def validate_login_credentials_def
        validate_password_complexity_def re_search_def is_upper_def is_lower_def is_digit_def
        authenticate_and_login_def get_client_ip_def is_rate_limited_def attempts_def
        increment_login_attempt_def render_login_page_with_error_def Let_def)
  then have limited:
    "is_rate_limited (snd (serve demo_env five_failures fresh_service)) (Some ''203.0.113.7'')"
    by (simp add: is_rate_limited_def)
  have ip: "get_client_ip ([login_post ''alice'' ''Correct-Horse-7battery''] ! 0) = Some ''203.0.113.7''"
    by (simp add: get_client_ip_def login_post_def)
  have auth: "authenticate demo_env 5 (login_post ''alice'' ''Correct-Horse-7battery'')
        (Some ''alice'') (Some ''Correct-Horse-7battery'')
       = Some \<lparr>username = ''alice'', is_superuser = False\<rparr>"
    by (simp add: demo_env_def)
  have page: "rate_limit_page demo_env = Render ''login.html''
      [(''error_message'', ''Too many login attempts. Please try again later.'')]"
    by (simp add: rate_limit_page_def render_login_page_with_error_def demo_env_def)
  from rate_limit_lockout [OF limited _ ip, where env = demo_env] five auth page
  show ?thesis by simp
qed

text \<open>
  Claim C8 as stated fails: the attempts of a client are not bounded, because the
  sender chooses the key. One peer makes six failed guesses on a fresh instance, each
  under another forwarded address, and each of them reaches \<open>authenticate\<close>; and a peer
  whose own address is limited is authenticated and logged in once it forwards another
  address.
\<close>

theorem rate_limit_key_chosen_by_sender:
  "list_all (\<lambda>req. remote_addr req = Some ''203.0.113.7'') rotating_guesses
   \<and> length (fst (serve demo_env rotating_guesses fresh_service)) = 6
   \<and> list_all (\<lambda>answer. answer =
          (Inr (Render ''login.html'' [(''error_message'', ''Invalid username or password'')]),
           [Authenticate (Some ''mallory'') (Some ''Correct-Horse-7battery''), SetDefaultUser,
            Authenticate (Some ''mallory'') (Some ''Correct-Horse-7battery'')]))
        (fst (serve demo_env rotating_guesses fresh_service))
   \<and> attempts locked_service (Some ''203.0.113.7'') = 5
   \<and> remote_addr (forwarded_post ''198.51.100.1'' ''alice'' ''Correct-Horse-7battery'')
       = Some ''203.0.113.7''
   \<and> fst (user_login demo_env (forwarded_post ''198.51.100.1'' ''alice'' ''Correct-Horse-7battery'')
          locked_service) = Inr (Redirect ''http://frontend.example'')
   \<and> snd (snd (user_login demo_env
          (forwarded_post ''198.51.100.1'' ''alice'' ''Correct-Horse-7battery'') locked_service))
       = [Authenticate (Some ''alice'') (Some ''Correct-Horse-7battery''),
          Login \<lparr>username = ''alice'', is_superuser = False\<rparr>]"
  by (simp add: rotating_guesses_def forwarded_post_def fresh_service_def locked_service_def
      demo_env_def user_login_def checked_credentials_def validate_login_credentials_def
      validate_password_complexity_def re_search_def is_upper_def is_lower_def is_digit_def
      authenticate_and_login_def get_client_ip_def is_rate_limited_def attempts_def
      increment_login_attempt_def reset_login_attempts_def render_login_page_with_error_def
      Let_def)

text \<open>
  Claim C9, as amended. For every login POST from an address that is not rate
  limited, whose password, as the serializer hands it on, is shorter than 12 characters
  or lacks an uppercase letter, a lowercase letter, a digit or a special character,
  \<open>user_login\<close> renders the login page with the message of the complexity check, adds one
  to the failed-attempt counter of the address and makes no call to \<open>authenticate\<close> or
  \<open>login\<close>, whatever \<open>authenticate\<close> would answer.
\<close>

theorem weak_password_never_authenticated:
  assumes "\<not> is_rate_limited s (get_client_ip req)"
    and "request_method req = ''POST''"
    and "validate_login_credentials env req = Inr (uname, Some p)"
    and "weak_password p"
  shows "\<exists>m. user_login env req s =
            (Inr (Render (TEMPLATE env) [(ERROR_PLACE_HOLDER env, m)]),
             increment_login_attempt s (get_client_ip req), [])
          \<and> validate_password_complexity p = Inl (ValueError m)
          \<and> attempts (increment_login_attempt s (get_client_ip req)) (get_client_ip req)
               = attempts s (get_client_ip req) + 1"
proof -
  from assms(4) obtain m where m: "validate_password_complexity p = Inl (ValueError m)"
    using weak_password_rejected by blast
  with assms(3) have "checked_credentials env req = Inl (ValueError m)"
    by (simp add: checked_credentials_def)
  with assms(1,2) m show ?thesis
    by (simp add: user_login_def attempts_increment)
qed

text \<open>
  A user who would authenticate submits a password of five characters to a fresh
  instance: the page carries the length message and the counter goes from 0 to 1.
\<close>

theorem weak_password_never_authenticated_witness:
  "authenticate demo_env 0 (login_post ''alice'' ''short'') (Some ''alice'') (Some ''short'')
     = Some \<lparr>username = ''alice'', is_superuser = False\<rparr>
   \<and> user_login demo_env (login_post ''alice'' ''short'') fresh_service
     = (Inr (Render ''login.html'' [(''error_message'', ''Password must be at least 12 characters long'')]),
        increment_login_attempt fresh_service (Some ''203.0.113.7''), [])
   \<and> attempts fresh_service (Some ''203.0.113.7'') = 0
   \<and> attempts (increment_login_attempt fresh_service (Some ''203.0.113.7'')) (Some ''203.0.113.7'') = 1"
proof -
  have ip: "get_client_ip (login_post ''alice'' ''short'') = Some ''203.0.113.7''"
    by (simp add: get_client_ip_def login_post_def)
  have zero: "attempts fresh_service (Some ''203.0.113.7'') = 0"
    by (simp add: attempts_def fresh_service_def)
  then have unlimited: "\<not> is_rate_limited fresh_service (get_client_ip (login_post ''alice'' ''short''))"
    by (simp add: ip is_rate_limited_def)
  have is_post: "request_method (login_post ''alice'' ''short'') = ''POST''"
    by (simp add: login_post_def)
  have creds: "validate_login_credentials demo_env (login_post ''alice'' ''short'')
      = Inr (Some ''alice'', Some ''short'')"
    by (simp add: validate_login_credentials_def demo_env_def login_post_def)
  have weak: "weak_password ''short''"
    by (simp add: weak_password_def)
  have msg: "validate_password_complexity ''short''
      = Inl (ValueError ''Password must be at least 12 characters long'')"
    by (simp add: validate_password_complexity_def)
  have auth: "authenticate demo_env 0 (login_post ''alice'' ''short'') (Some ''alice'') (Some ''short'')
     = Some \<lparr>username = ''alice'', is_superuser = False\<rparr>"
    by (simp add: demo_env_def)
  have tmpl: "TEMPLATE demo_env = ''login.html''" "ERROR_PLACE_HOLDER demo_env = ''error_message''"
    by (simp_all add: demo_env_def)
  from weak_password_never_authenticated [OF unlimited is_post creds weak] msg
  show ?thesis
    by (auto simp: ip zero auth tmpl)
qed

text \<open>
  Claim C9 as stated fails for an address that is rate limited: the same POST is
  answered with the rate-limit page and the counter of the address stays at 5.
\<close>

theorem weak_password_not_counted_when_limited:
  "request_method (login_post ''alice'' ''short'') = ''POST''
   \<and> weak_password ''short''
   \<and> attempts locked_service (get_client_ip (login_post ''alice'' ''short'')) = 5
   \<and> fst (user_login demo_env (login_post ''alice'' ''short'') locked_service)
     = Inr (Render ''login.html''
              [(''error_message'', ''Too many login attempts. Please try again later.'')])
   \<and> attempts (fst (snd (user_login demo_env (login_post ''alice'' ''short'') locked_service)))
        (get_client_ip (login_post ''alice'' ''short'')) = 5"
  by (simp add: user_login_def is_rate_limited_def attempts_def locked_service_def
      get_client_ip_def login_post_def weak_password_def rate_limit_page_def
      render_login_page_with_error_def demo_env_def)

text \<open>
  Claim C10. Whenever the first \<open>authenticate\<close> call returns a user whose
  \<open>is_superuser\<close> flag is set, \<open>authenticate_and_login\<close> returns \<open>False\<close>; the only call
  it has made is that \<open>authenticate\<close>, so the user is not logged in, and the default
  user is not touched.
\<close>

theorem superuser_login_refused:
  assumes "authenticate env d req uname password = Some u" and "is_superuser u"
  shows "authenticate_and_login env d req uname password
           = (Inr False, d, [Authenticate uname password])"
  using assms by (simp add: authenticate_and_login_def)

text \<open>The superuser of the example, with a password that passes the complexity check.\<close>

theorem superuser_login_refused_witness:
  "authenticate demo_env 0 (login_post ''root'' ''Correct-Horse-7battery'')
       (Some ''root'') (Some ''Correct-Horse-7battery'')
     = Some \<lparr>username = ''root'', is_superuser = True\<rparr>
   \<and> authenticate_and_login demo_env 0 (login_post ''root'' ''Correct-Horse-7battery'')
       (Some ''root'') (Some ''Correct-Horse-7battery'')
     = (Inr False, 0, [Authenticate (Some ''root'') (Some ''Correct-Horse-7battery'')])"
proof -
  have auth: "authenticate demo_env 0 (login_post ''root'' ''Correct-Horse-7battery'')
       (Some ''root'') (Some ''Correct-Horse-7battery'')
     = Some \<lparr>username = ''root'', is_superuser = True\<rparr>"
    by (simp add: demo_env_def)
  have super: "is_superuser \<lparr>username = ''root'', is_superuser = True\<rparr>"
    by simp
  from superuser_login_refused [OF auth super] auth show ?thesis by simp
qed

end
